theory Spec2Isabelle
  imports Main
begin

section \<open>The GitLab webhook handler of scm-engine\<close>

text \<open>
  A shallow embedding of \<^verbatim>\<open>cmd/gitlab_server_handlers.go\<close>. The handler is a straight line
  of checks with early returns. Everything it does to the outside world (writes to the
  response, reads of the body, calls of the JSON decoder, of the platform client, of the
  configuration loader and of \<^verbatim>\<open>ProcessMR\<close>) is recorded, in program order, as a list of
  events. The results of those outside calls are parameters of the model.
\<close>

subsection \<open>Errors\<close>

text \<open>A Go \<^verbatim>\<open>error\<close> is known here by the text its \<^verbatim>\<open>Error()\<close> method returns.\<close>

datatype error = Err string

fun Error :: "error \<Rightarrow> string" where
  "Error (Err s) = s"

definition errors_New :: "string \<Rightarrow> error" where
  "errors_New s = Err s"

text \<open>\<^verbatim>\<open>fmt.Errorf(prefix + "%w", err)\<close> and \<^verbatim>\<open>fmt.Errorf(prefix + "%s", s)\<close>: the format string
  of both uses in the handler is a fixed prefix followed by one verb.\<close>

definition fmt_Errorf_w :: "string \<Rightarrow> error \<Rightarrow> error" where
  "fmt_Errorf_w prefix err = Err (prefix @ Error err)"

definition fmt_Errorf_s :: "string \<Rightarrow> string \<Rightarrow> error" where
  "fmt_Errorf_s prefix s = Err (prefix @ s)"

subsection \<open>HTTP status codes and headers\<close>

definition StatusOK :: nat where "StatusOK = 200"
definition StatusBadRequest :: nat where "StatusBadRequest = 400"
definition StatusForbidden :: nat where "StatusForbidden = 403"
definition StatusNotAcceptable :: nat where "StatusNotAcceptable = 406"
definition StatusInternalServerError :: nat where "StatusInternalServerError = 500"

text \<open>\<^verbatim>\<open>http.Header\<close> is a map from a key to the list of its values; \<^verbatim>\<open>Get\<close> returns the first
  value and the empty string when the key is missing. Both keys the handler asks for are
  already in canonical form.\<close>

type_synonym Header = "string \<rightharpoonup> string list"

definition Header_Get :: "Header \<Rightarrow> string \<Rightarrow> string" where
  "Header_Get h k = (case h k of None \<Rightarrow> [] | Some [] \<Rightarrow> [] | Some (v # vs) \<Rightarrow> v)"

subsection \<open>The request context\<close>

text \<open>Modelled from the spec: package \<^verbatim>\<open>state\<close> and \<^verbatim>\<open>config.GlobalConfigFromContext\<close> are not
  in the source file. The context is the bag of correlation fields of the spec, section 3
  (project identity, resource identifier, commit reference, event kind as a log
  attribute), together with the settings the handler reads back from it: the path of the
  configuration file, the path of the global configuration file and the loaded global
  configuration. Each \<^verbatim>\<open>With...\<close> sets one field, each getter reads one.\<close>

record 'cfg ctx =
  ProjectID :: string
  CommitSHA :: string
  MergeRequestID :: string
  ConfigFilePath :: string
  GlobalConfigFilePath :: string
  GlobalConfig :: "'cfg option"
  LogAttrs :: "(string \<times> string) list"

definition WithProjectID :: "'cfg ctx \<Rightarrow> string \<Rightarrow> 'cfg ctx" where
  "WithProjectID c v = c\<lparr>ProjectID := v\<rparr>"

definition WithCommitSHA :: "'cfg ctx \<Rightarrow> string \<Rightarrow> 'cfg ctx" where
  "WithCommitSHA c v = c\<lparr>CommitSHA := v\<rparr>"

definition WithMergeRequestID :: "'cfg ctx \<Rightarrow> string \<Rightarrow> 'cfg ctx" where
  "WithMergeRequestID c v = c\<lparr>MergeRequestID := v\<rparr>"

definition slogctx_With :: "'cfg ctx \<Rightarrow> string \<Rightarrow> string \<Rightarrow> 'cfg ctx" where
  "slogctx_With c k v = c\<lparr>LogAttrs := LogAttrs c @ [(k, v)]\<rparr>"

definition GlobalConfigFromContext :: "'cfg ctx \<Rightarrow> 'cfg option" where
  "GlobalConfigFromContext c = GlobalConfig c"

subsection \<open>The webhook payload\<close>

text \<open>Modelled from the spec: the declaration of \<^verbatim>\<open>GitlabWebhookPayload\<close> is not in the source
  file. The fields are the ones the handler reads: the event kind, the project's path with
  namespace, and for the primary object and for the related merge request an internal ID
  (an integer, the handler formats it with \<^verbatim>\<open>strconv.Itoa\<close>) and the ID of the last commit.\<close>

record LastCommit =
  ID :: string

record MergeRequestAttrs =
  IID :: int
  LastCommit :: LastCommit

record Project =
  PathWithNamespace :: string

record GitlabWebhookPayload =
  EventType :: string
  Project :: Project
  ObjectAttributes :: MergeRequestAttrs
  MergeRequest :: MergeRequestAttrs

subsection \<open>strconv.Itoa\<close>

definition digit_char :: "nat \<Rightarrow> char" where
  "digit_char d = char_of (48 + d)"

fun digits :: "nat \<Rightarrow> string" where
  "digits n = (if n < 10 then [digit_char n] else digits (n div 10) @ [digit_char (n mod 10)])"

declare digits.simps [simp del]

definition Itoa :: "int \<Rightarrow> string" where
  "Itoa i = (if i < 0 then CHR ''-'' # digits (nat (- i)) else digits (nat i))"

subsection \<open>The request, the outside world and the events\<close>

text \<open>A request: its headers, what \<^verbatim>\<open>io.ReadAll(r.Body)\<close> returns (an error or the bytes of the
  body) and the context it arrives with.\<close>

record 'cfg request =
  Header :: Header
  Body :: "error + string"
  Context :: "'cfg ctx"

text \<open>
  The functions the handler calls and does not define. A Go function returning
  \<^verbatim>\<open>(value, error)\<close> is a function into a sum: \<open>Inl\<close> the error, with no value beside it, as
  the handler's own comments take for granted ("in case of a parse error cfg remains nil",
  "file could be nil if no scm-config file is found when global config is set").
  \<^item> \<open>json_Decode_Payload\<close>: \<^verbatim>\<open>json.NewDecoder(bytes.NewReader(body)).Decode(&payload)\<close> with
    \<open>payload\<close> a \<^verbatim>\<open>GitlabWebhookPayload\<close>;
  \<^item> \<open>json_Decode_any\<close>: the same call with a target of type \<^verbatim>\<open>any\<close>;
  \<^item> \<open>GetRemoteConfig\<close>: the client's method; on success the file may still be nil;
  \<^item> \<open>ParseFile\<close>: \<^verbatim>\<open>config.ParseFile\<close>;
  \<^item> \<open>ProcessMR\<close>: returns an error or nothing.
\<close>

record ('file, 'cfg, 'any) env =
  json_Decode_Payload :: "string \<Rightarrow> error + GitlabWebhookPayload"
  json_Decode_any :: "string \<Rightarrow> error + 'any"
  GetRemoteConfig :: "'cfg ctx \<Rightarrow> string \<Rightarrow> string \<Rightarrow> error + 'file option"
  ParseFile :: "'file \<Rightarrow> error + 'cfg"
  ProcessMR :: "'cfg ctx \<Rightarrow> 'cfg option \<Rightarrow> 'any \<Rightarrow> error option"

datatype ('file, 'cfg, 'any) event =
    WriteHeader nat
  | Write string
  | ReadAll
  | Decode_Payload string
  | Decode_any string
  | LogInfo "'cfg ctx" string
  | Call_GetRemoteConfig "'cfg ctx" string string
  | Call_ParseFile 'file
  | Call_GlobalConfigFromContext "'cfg ctx"
  | Call_ProcessMR "'cfg ctx" "'cfg option" 'any

text \<open>Modelled from the spec: \<^verbatim>\<open>errHandler\<close> is not in the source file. It responds with the
  given status and the error text in the body (spec, sections 4.6, 4.7 and 6). Its log
  record is not part of the response and is left out.\<close>

definition errHandler :: "'cfg ctx \<Rightarrow> nat \<Rightarrow> error \<Rightarrow> ('file, 'cfg, 'any) event list" where
  "errHandler c code err = [WriteHeader code, Write (Error err)]"

text \<open>What the client sees, as \<^verbatim>\<open>http.ResponseWriter\<close> has it: the first \<^verbatim>\<open>WriteHeader\<close> fixes
  the status and later ones are ignored, a \<^verbatim>\<open>Write\<close> before any \<^verbatim>\<open>WriteHeader\<close> fixes it
  to 200, and the body is everything written, in order.\<close>

fun response_status :: "('file, 'cfg, 'any) event list \<Rightarrow> nat option" where
  "response_status [] = None"
| "response_status (WriteHeader code # es) = Some code"
| "response_status (Write s # es) = Some StatusOK"
| "response_status (e # es) = response_status es"

fun response_body :: "('file, 'cfg, 'any) event list \<Rightarrow> string" where
  "response_body [] = []"
| "response_body (Write s # es) = s @ response_body es"
| "response_body (e # es) = response_body es"

subsection \<open>The handler\<close>

text \<open>Lines 115 to 145: configuration resolution and processing, for the context \<open>c\<close> built
  so far and the untyped payload.\<close>

definition resolve_and_process ::
  "('file, 'cfg, 'any) env \<Rightarrow> 'cfg ctx \<Rightarrow> 'any \<Rightarrow> ('file, 'cfg, 'any) event list" where
  "resolve_and_process env c fullEventPayload =
     Call_GetRemoteConfig c (ConfigFilePath c) (CommitSHA c) #
     (let (file, err) = (case GetRemoteConfig env c (ConfigFilePath c) (CommitSHA c) of
                           Inl e \<Rightarrow> (None, Some e)
                         | Inr f \<Rightarrow> (f, None)) in
      if err \<noteq> None \<and> GlobalConfigFilePath c = [] then
        errHandler c StatusOK (the err)
      else
        (let (evs, cfg) = (case file of
                             Some f \<Rightarrow> ([Call_ParseFile f],
                                        (case ParseFile env f of Inl e \<Rightarrow> None | Inr g \<Rightarrow> Some g))
                           | None \<Rightarrow> ([Call_GlobalConfigFromContext c], GlobalConfigFromContext c)) in
         evs @ Call_ProcessMR c cfg fullEventPayload #
         (case ProcessMR env c cfg fullEventPayload of
            Some e \<Rightarrow> errHandler c StatusOK e
          | None \<Rightarrow> [WriteHeader StatusOK, Write ''OK''])))"

text \<open>Lines 76 to 113: event dispatch, context enrichment and the untyped decode, for a
  payload that decoded. The \<^verbatim>\<open>switch\<close> either yields the pair of \<^verbatim>\<open>id\<close> (here \<open>id'\<close>) and \<^verbatim>\<open>gitSha\<close> or, in its
  \<^verbatim>\<open>default\<close> case, the error the handler returns with.\<close>

definition route_and_enrich ::
  "('file, 'cfg, 'any) env \<Rightarrow> 'cfg ctx \<Rightarrow> string \<Rightarrow> GitlabWebhookPayload
     \<Rightarrow> ('file, 'cfg, 'any) event list" where
  "route_and_enrich env c0 body payload =
     (let c = WithProjectID c0 (PathWithNamespace (Project payload)) in
      case (if EventType payload = ''merge_request'' then
              Inr (Itoa (IID (ObjectAttributes payload)),
                   ID (LastCommit (ObjectAttributes payload)))
            else if EventType payload = ''note'' then
              Inr (Itoa (IID (MergeRequest payload)),
                   ID (LastCommit (MergeRequest payload)))
            else
              Inl (fmt_Errorf_s ''unknown event type: '' (EventType payload))) of
        Inl err \<Rightarrow> errHandler c StatusInternalServerError err
      | Inr (id', gitSha) \<Rightarrow>
          (let c = WithCommitSHA c gitSha;
               c = WithMergeRequestID c id';
               c = slogctx_With c ''event_type'' (EventType payload) in
           LogInfo c ''GET /gitlab webhook'' # Decode_any body #
           (case json_Decode_any env body of
              Inl err \<Rightarrow> errHandler c StatusInternalServerError err
            | Inr fullEventPayload \<Rightarrow> resolve_and_process env c fullEventPayload)))"

text \<open>Lines 35 to 74, and the rest through the two functions above. The empty-body check
  of lines 64 to 66 has no \<^verbatim>\<open>return\<close>: its events are followed by those of the decode.\<close>

definition webhook_handler ::
  "('file, 'cfg, 'any) env \<Rightarrow> string \<Rightarrow> 'cfg request \<Rightarrow> ('file, 'cfg, 'any) event list" where
  "webhook_handler env webhookSecret r =
     (let c = Context r in
      if length webhookSecret > 0 \<and> webhookSecret \<noteq> Header_Get (Header r) ''X-Gitlab-Token'' then
        errHandler c StatusForbidden (errors_New ''Missing or invalid X-Gitlab-Token header'')
      else if Header_Get (Header r) ''Content-Type'' \<noteq> ''application/json'' then
        errHandler c StatusNotAcceptable
          (errors_New ''The request is not using Content-Type: application/json'')
      else
        ReadAll #
        (case Body r of
           Inl err \<Rightarrow> errHandler c StatusBadRequest err
         | Inr body \<Rightarrow>
             (if length body = 0
              then errHandler c StatusBadRequest
                     (errors_New ''The POST body is empty; expected a JSON payload'')
              else []) @
             Decode_Payload body #
             (case json_Decode_Payload env body of
                Inl err \<Rightarrow>
                  errHandler c StatusBadRequest
                    (fmt_Errorf_w ''could not decode POST body into Payload struct: '' err)
              | Inr payload \<Rightarrow> route_and_enrich env c body payload)))"

text \<open>\<^verbatim>\<open>GitLabWebhookHandler\<close> builds the client once and panics when that fails; otherwise it
  returns the handler above. The client's methods are the fields of \<open>env\<close>.\<close>

datatype panic = Panic error

definition GitLabWebhookHandler ::
  "(error + ('file, 'cfg, 'any) env) \<Rightarrow> string
     \<Rightarrow> panic + ('cfg request \<Rightarrow> ('file, 'cfg, 'any) event list)" where
  "GitLabWebhookHandler getClient webhookSecret =
     (case getClient of
        Inl err \<Rightarrow> Inl (Panic err)
      | Inr env \<Rightarrow> Inr (webhook_handler env webhookSecret))"

text \<open>\<^verbatim>\<open>GitLabStatusHandler\<close>.\<close>

definition GitLabStatusHandler :: "('file, 'cfg, 'any) event list" where
  "GitLabStatusHandler =
     [WriteHeader StatusOK,
      Write ''scm-engine status: OK\<newline>\<newline>NOTE: this is a static 'OK', no actual checks are being made'']"

subsection \<open>Observations on a run\<close>

text \<open>The calls that leave the handler for the platform client, the configuration loader
  or the processing stage.\<close>

fun is_call :: "('file, 'cfg, 'any) event \<Rightarrow> bool" where
  "is_call (Call_GetRemoteConfig c p s) = True"
| "is_call (Call_ParseFile f) = True"
| "is_call (Call_GlobalConfigFromContext c) = True"
| "is_call (Call_ProcessMR c g a) = True"
| "is_call e = False"


text \<open>The contexts a run hands to the logger and to the outside calls, in order.\<close>

fun event_ctx :: "('file, 'cfg, 'any) event \<Rightarrow> 'cfg ctx option" where
  "event_ctx (LogInfo c m) = Some c"
| "event_ctx (Call_GetRemoteConfig c p s) = Some c"
| "event_ctx (Call_GlobalConfigFromContext c) = Some c"
| "event_ctx (Call_ProcessMR c g a) = Some c"
| "event_ctx e = None"

fun contexts :: "('file, 'cfg, 'any) event list \<Rightarrow> 'cfg ctx list" where
  "contexts [] = []"
| "contexts (e # es) = (case event_ctx e of None \<Rightarrow> contexts es | Some c \<Rightarrow> c # contexts es)"

text \<open>What is assumed of \<^verbatim>\<open>encoding/json\<close>, which is no part of this repository: a decoder
  reading from an empty reader returns an error (\<^verbatim>\<open>io.EOF\<close>). It is a hypothesis wherever
  the status of the response depends on it.\<close>

definition Decode_rejects_empty :: "('file, 'cfg, 'any) env \<Rightarrow> bool" where
  "Decode_rejects_empty env = isl (json_Decode_Payload env [])"

subsection \<open>Example requests\<close>

definition example_mr_body :: string where
  \<open>example_mr_body = ''{"event_type":"merge_request","project":{"path_with_namespace":"g/p"},"object_attributes":{"iid":7,"last_commit":{"id":"c0ffee"}}}''\<close>

definition example_note_body :: string where
  \<open>example_note_body = ''{"event_type":"note","project":{"path_with_namespace":"g/p"},"merge_request":{"iid":12,"last_commit":{"id":"decaf"}}}''\<close>

definition example_push_body :: string where
  \<open>example_push_body = ''{"event_type":"push","project":{"path_with_namespace":"g/p"}}''\<close>

definition no_attrs :: MergeRequestAttrs where
  "no_attrs = \<lparr>IID = 0, LastCommit = \<lparr>ID = []\<rparr>\<rparr>"

definition example_mr_payload :: GitlabWebhookPayload where
  "example_mr_payload =
     \<lparr>EventType = ''merge_request'', Project = \<lparr>PathWithNamespace = ''g/p''\<rparr>,
      ObjectAttributes = \<lparr>IID = 7, LastCommit = \<lparr>ID = ''c0ffee''\<rparr>\<rparr>,
      MergeRequest = no_attrs\<rparr>"

definition example_note_payload :: GitlabWebhookPayload where
  "example_note_payload =
     \<lparr>EventType = ''note'', Project = \<lparr>PathWithNamespace = ''g/p''\<rparr>,
      ObjectAttributes = no_attrs,
      MergeRequest = \<lparr>IID = 12, LastCommit = \<lparr>ID = ''decaf''\<rparr>\<rparr>\<rparr>"

definition example_push_payload :: GitlabWebhookPayload where
  "example_push_payload =
     \<lparr>EventType = ''push'', Project = \<lparr>PathWithNamespace = ''g/p''\<rparr>,
      ObjectAttributes = no_attrs, MergeRequest = no_attrs\<rparr>"

definition example_decode :: "string \<Rightarrow> error + GitlabWebhookPayload" where
  "example_decode b =
     (if b = example_mr_body then Inr example_mr_payload
      else if b = example_note_body then Inr example_note_payload
      else if b = example_push_body then Inr example_push_payload
      else Inl (Err ''EOF''))"

text \<open>An outside world for the examples: the fetch and the processing stage answer what
  they are told to, the parser rejects one file, the untyped payload is the body itself.\<close>

definition example_env ::
  "(error + string option) \<Rightarrow> error option \<Rightarrow> (string, string, string) env" where
  "example_env fetch proc =
     \<lparr>json_Decode_Payload = example_decode,
      json_Decode_any = (\<lambda>b. if b = [] then Inl (Err ''EOF'') else Inr b),
      GetRemoteConfig = (\<lambda>c p s. fetch),
      ParseFile = (\<lambda>f. if f = ''label: ['' then Inl (Err ''could not parse'') else Inr f),
      ProcessMR = (\<lambda>c g a. proc)\<rparr>"

definition example_ctx :: "string \<Rightarrow> string ctx" where
  "example_ctx g =
     \<lparr>ProjectID = [], CommitSHA = [], MergeRequestID = [],
      ConfigFilePath = ''.scm-engine.yml'', GlobalConfigFilePath = g,
      GlobalConfig = (if g = [] then None else Some ''global rules''), LogAttrs = []\<rparr>"

definition example_request :: "string \<Rightarrow> string \<Rightarrow> string \<Rightarrow> string \<Rightarrow> string request" where
  "example_request token ctype body g =
     \<lparr>Header = [''X-Gitlab-Token'' \<mapsto> [token], ''Content-Type'' \<mapsto> [ctype]],
      Body = Inr body, Context = example_ctx g\<rparr>"

text \<open>The context of the merge-request example after line 103.\<close>

definition example_mr_ctx :: "string \<Rightarrow> string ctx" where
  "example_mr_ctx g =
     (example_ctx g)\<lparr>ProjectID := ''g/p'', CommitSHA := ''c0ffee'', MergeRequestID := Itoa 7,
                     LogAttrs := [(''event_type'', ''merge_request'')]\<rparr>"

section \<open>The shape of a run\<close>

lemmas status_defs = StatusOK_def StatusBadRequest_def StatusForbidden_def
  StatusNotAcceptable_def StatusInternalServerError_def

lemma resolve_and_process_cases:
  "resolve_and_process env c a =
     Call_GetRemoteConfig c (ConfigFilePath c) (CommitSHA c) #
     (case GetRemoteConfig env c (ConfigFilePath c) (CommitSHA c) of
        Inl e \<Rightarrow>
          if GlobalConfigFilePath c = [] then [WriteHeader StatusOK, Write (Error e)]
          else Call_GlobalConfigFromContext c # Call_ProcessMR c (GlobalConfig c) a #
               (case ProcessMR env c (GlobalConfig c) a of
                  Some e' \<Rightarrow> [WriteHeader StatusOK, Write (Error e')]
                | None \<Rightarrow> [WriteHeader StatusOK, Write ''OK''])
      | Inr None \<Rightarrow>
          Call_GlobalConfigFromContext c # Call_ProcessMR c (GlobalConfig c) a #
               (case ProcessMR env c (GlobalConfig c) a of
                  Some e' \<Rightarrow> [WriteHeader StatusOK, Write (Error e')]
                | None \<Rightarrow> [WriteHeader StatusOK, Write ''OK''])
      | Inr (Some f) \<Rightarrow>
          Call_ParseFile f #
          Call_ProcessMR c (case ParseFile env f of Inl e \<Rightarrow> None | Inr g \<Rightarrow> Some g) a #
               (case ProcessMR env c (case ParseFile env f of Inl e \<Rightarrow> None | Inr g \<Rightarrow> Some g) a of
                  Some e' \<Rightarrow> [WriteHeader StatusOK, Write (Error e')]
                | None \<Rightarrow> [WriteHeader StatusOK, Write ''OK'']))"
  unfolding resolve_and_process_def errHandler_def GlobalConfigFromContext_def
  by (simp split: sum.split option.split)


lemmas ctx_defs = WithProjectID_def WithCommitSHA_def WithMergeRequestID_def slogctx_With_def

lemma route_merge_request:
  assumes "EventType payload = ''merge_request''"
  shows "route_and_enrich env c0 b payload =
     (let c = c0\<lparr>ProjectID := PathWithNamespace (Project payload),
                     CommitSHA := ID (LastCommit (ObjectAttributes payload)),
                     MergeRequestID := Itoa (IID (ObjectAttributes payload)),
                     LogAttrs := LogAttrs c0 @ [(''event_type'', ''merge_request'')]\<rparr> in
         LogInfo c ''GET /gitlab webhook'' # Decode_any b #
         (case json_Decode_any env b of
            Inl err \<Rightarrow> [WriteHeader StatusInternalServerError, Write (Error err)]
          | Inr a \<Rightarrow> resolve_and_process env c a))"
  unfolding route_and_enrich_def errHandler_def ctx_defs
  by (simp add: Let_def assms split: sum.split)

lemma route_note:
  assumes "EventType payload = ''note''"
  shows "route_and_enrich env c0 b payload =
     (let c = c0\<lparr>ProjectID := PathWithNamespace (Project payload),
                     CommitSHA := ID (LastCommit (MergeRequest payload)),
                     MergeRequestID := Itoa (IID (MergeRequest payload)),
                     LogAttrs := LogAttrs c0 @ [(''event_type'', ''note'')]\<rparr> in
         LogInfo c ''GET /gitlab webhook'' # Decode_any b #
         (case json_Decode_any env b of
            Inl err \<Rightarrow> [WriteHeader StatusInternalServerError, Write (Error err)]
          | Inr a \<Rightarrow> resolve_and_process env c a))"
  unfolding route_and_enrich_def errHandler_def ctx_defs
  by (simp add: Let_def assms split: sum.split)

lemma route_unknown:
  assumes "EventType payload \<noteq> ''merge_request''" "EventType payload \<noteq> ''note''"
  shows "route_and_enrich env c0 b payload =
     [WriteHeader StatusInternalServerError,
            Write (''unknown event type: '' @ EventType payload)]"
  unfolding route_and_enrich_def errHandler_def fmt_Errorf_s_def
  by (simp add: Let_def assms split: sum.split)

lemma handler_forbidden:
  assumes "webhookSecret \<noteq> []" "Header_Get (Header r) ''X-Gitlab-Token'' \<noteq> webhookSecret"
  shows "webhook_handler env webhookSecret r =
           [WriteHeader StatusForbidden, Write ''Missing or invalid X-Gitlab-Token header'']"
  using assms unfolding webhook_handler_def errHandler_def errors_New_def
  by (simp add: Let_def)

lemma handler_not_acceptable:
  assumes "webhookSecret = [] \<or> Header_Get (Header r) ''X-Gitlab-Token'' = webhookSecret"
    and "Header_Get (Header r) ''Content-Type'' \<noteq> ''application/json''"
  shows "webhook_handler env webhookSecret r =
           [WriteHeader StatusNotAcceptable,
            Write ''The request is not using Content-Type: application/json'']"
  using assms unfolding webhook_handler_def errHandler_def errors_New_def
  by (auto simp add: Let_def)

lemma handler_read_error:
  assumes "webhookSecret = [] \<or> Header_Get (Header r) ''X-Gitlab-Token'' = webhookSecret"
    and "Header_Get (Header r) ''Content-Type'' = ''application/json''"
    and "Body r = Inl err"
  shows "webhook_handler env webhookSecret r =
           [ReadAll, WriteHeader StatusBadRequest, Write (Error err)]"
  using assms unfolding webhook_handler_def errHandler_def errors_New_def
  by (auto simp add: Let_def)

lemma handler_body:
  assumes "webhookSecret = [] \<or> Header_Get (Header r) ''X-Gitlab-Token'' = webhookSecret"
    and "Header_Get (Header r) ''Content-Type'' = ''application/json''"
    and "Body r = Inr b"
  shows "webhook_handler env webhookSecret r =
           ReadAll #
           (if b = [] then [WriteHeader StatusBadRequest,
                            Write ''The POST body is empty; expected a JSON payload'']
            else []) @
           Decode_Payload b #
           (case json_Decode_Payload env b of
              Inl err \<Rightarrow> [WriteHeader StatusBadRequest,
                          Write (''could not decode POST body into Payload struct: '' @ Error err)]
            | Inr payload \<Rightarrow> route_and_enrich env (Context r) b payload)"
  using assms unfolding webhook_handler_def errHandler_def errors_New_def fmt_Errorf_w_def
  by (auto simp add: Let_def split: sum.split)

lemma route_reaches_resolution:
  assumes "e \<in> set (route_and_enrich env c0 b payload)" "is_call e"
  shows "\<exists>c a. json_Decode_any env b = Inr a \<and> e \<in> set (resolve_and_process env c a) \<and>
           route_and_enrich env c0 b payload =
             [LogInfo c ''GET /gitlab webhook'', Decode_any b] @ resolve_and_process env c a"
proof -
  consider (mr) "EventType payload = ''merge_request''" | (nt) "EventType payload = ''note''"
    | (other) "EventType payload \<noteq> ''merge_request''" "EventType payload \<noteq> ''note''"
    by blast
  then show ?thesis
  proof cases
    case mr
    show ?thesis
    proof (cases "json_Decode_any env b")
      case (Inl err)
      with assms mr show ?thesis by (auto simp: route_merge_request Let_def)
    next
      case (Inr a)
      with assms mr show ?thesis by (auto simp: route_merge_request Let_def)
    qed
  next
    case nt
    show ?thesis
    proof (cases "json_Decode_any env b")
      case (Inl err)
      with assms nt show ?thesis by (auto simp: route_note Let_def)
    next
      case (Inr a)
      with assms nt show ?thesis by (auto simp: route_note Let_def)
    qed
  next
    case other
    with assms show ?thesis by (auto simp: route_unknown)
  qed
qed

lemma handler_reaches_resolution:
  assumes "e \<in> set (webhook_handler env webhookSecret r)" "is_call e"
  shows "\<exists>b payload c a. Body r = Inr b \<and> json_Decode_Payload env b = Inr payload \<and>
           json_Decode_any env b = Inr a \<and> e \<in> set (resolve_and_process env c a) \<and>
           webhook_handler env webhookSecret r =
             ReadAll #
             (if b = [] then [WriteHeader StatusBadRequest,
                              Write ''The POST body is empty; expected a JSON payload'']
              else []) @
             [Decode_Payload b, LogInfo c ''GET /gitlab webhook'', Decode_any b] @
             resolve_and_process env c a"
proof (cases "webhookSecret = [] \<or> Header_Get (Header r) ''X-Gitlab-Token'' = webhookSecret")
  case False
  with assms show ?thesis by (auto simp: handler_forbidden)
next
  case sec: True
  show ?thesis
  proof (cases "Header_Get (Header r) ''Content-Type'' = ''application/json''")
    case False
    with assms sec show ?thesis by (auto simp: handler_not_acceptable)
  next
    case ct: True
    show ?thesis
    proof (cases "Body r")
      case (Inl err)
      with assms show ?thesis by (auto simp: handler_read_error [OF sec ct])
    next
      case (Inr b)
      note hb = handler_body [OF sec ct Inr, of env]
      show ?thesis
      proof (cases "json_Decode_Payload env b")
        case (Inl err)
        with assms hb show ?thesis by (auto split: if_splits)
      next
        case dec: (Inr payload)
        with assms hb have "e \<in> set (route_and_enrich env (Context r) b payload)"
          by (auto split: if_splits)
        from route_reaches_resolution [OF this assms(2)]
        obtain c a where "json_Decode_any env b = Inr a" "e \<in> set (resolve_and_process env c a)"
          "route_and_enrich env (Context r) b payload =
             [LogInfo c ''GET /gitlab webhook'', Decode_any b] @ resolve_and_process env c a"
          by blast
        with Inr dec hb show ?thesis by simp
      qed
    qed
  qed
qed

lemma contexts_append: "contexts (xs @ ys) = contexts xs @ contexts ys"
  by (induction xs) (simp_all split: option.split)

lemma contexts_resolve: "set (contexts (resolve_and_process env c a)) = {c}"
  by (simp add: resolve_and_process_cases split: sum.split option.split)

lemma reaches_form_status:
  assumes "b \<noteq> []"
  shows "response_status (ReadAll # (if b = [] then [WriteHeader StatusBadRequest,
                              Write ''The POST body is empty; expected a JSON payload'']
              else []) @ [Decode_Payload b, LogInfo c m, Decode_any b] @ rest) = response_status rest"
    and "response_body (ReadAll # (if b = [] then [WriteHeader StatusBadRequest,
                              Write ''The POST body is empty; expected a JSON payload'']
              else []) @ [Decode_Payload b, LogInfo c m, Decode_any b] @ rest) = response_body rest"
  using assms by simp_all

lemma contexts_route_tail:
  "contexts (case json_Decode_any env b of
            Inl err \<Rightarrow> [WriteHeader StatusInternalServerError, Write (Error err)]
          | Inr a \<Rightarrow> resolve_and_process env c a) = [] \<or>
   set (contexts (case json_Decode_any env b of
            Inl err \<Rightarrow> [WriteHeader StatusInternalServerError, Write (Error err)]
          | Inr a \<Rightarrow> resolve_and_process env c a)) = {c}"
  by (simp add: contexts_resolve split: sum.split)

lemma header_codes_resolve:
  "WriteHeader code \<in> set (resolve_and_process env c a) \<Longrightarrow> code = StatusOK"
  by (simp add: resolve_and_process_cases split: sum.splits option.splits if_splits)

lemma header_codes_route:
  "WriteHeader code \<in> set (route_and_enrich env c b payload) \<Longrightarrow>
     code = StatusOK \<or> code = StatusInternalServerError"
  apply (cases "EventType payload = ''merge_request''")
   apply (auto simp: route_merge_request Let_def dest: header_codes_resolve split: sum.splits)[1]
  apply (cases "EventType payload = ''note''")
   apply (auto simp: route_note Let_def dest: header_codes_resolve split: sum.splits)[1]
  apply (simp add: route_unknown)
  done

lemma response_status_mem:
  "response_status tr = Some code \<Longrightarrow> WriteHeader code \<in> set tr \<or> code = StatusOK"
  by (induction tr rule: response_status.induct) auto

lemma header_codes_open:
  assumes "WriteHeader code \<in> set (webhook_handler env [] r)"
  shows "code \<noteq> StatusForbidden"
proof (cases "Header_Get (Header r) ''Content-Type'' = ''application/json''")
  case False
  with assms show ?thesis by (simp add: handler_not_acceptable status_defs)
next
  case ct: True
  show ?thesis
  proof (cases "Body r")
    case (Inl err)
    with assms ct show ?thesis by (simp add: handler_read_error status_defs)
  next
    case (Inr b)
    have sec: "[] = [] \<or> Header_Get (Header r) ''X-Gitlab-Token'' = []" by simp
    from assms show ?thesis unfolding handler_body [OF sec ct Inr]
      by (auto simp: status_defs dest: header_codes_route split: if_splits sum.splits)
  qed
qed

section \<open>The decimal text of an integer determines it\<close>

lemma digit_char_inj: "a < 10 \<Longrightarrow> b < 10 \<Longrightarrow> digit_char a = digit_char b \<Longrightarrow> a = b"
proof -
  assume a: "a < 10" and b: "b < 10" and e: "digit_char a = digit_char b"
  from e have "(of_char (char_of (48 + a) :: char) :: nat) = of_char (char_of (48 + b) :: char)"
    by (simp add: digit_char_def)
  with a b show "a = b" by simp
qed

lemma digit_char_not_minus: "d < 10 \<Longrightarrow> digit_char d \<noteq> CHR ''-''"
proof
  assume d: "d < 10" and e: "digit_char d = CHR ''-''"
  from e have "(of_char (char_of (48 + d) :: char) :: nat) = of_char (CHR ''-'')"
    by (simp add: digit_char_def)
  with d show False by simp
qed

lemma digits_nonempty: "digits n \<noteq> []"
  by (subst digits.simps) simp

lemma digits_last: "last (digits n) = digit_char (n mod 10)"
  by (subst digits.simps) (simp add: digits_nonempty)

lemma digits_butlast: "10 \<le> n \<Longrightarrow> butlast (digits n) = digits (n div 10)"
  by (subst digits.simps) (simp add: digits_nonempty)

lemma digits_single: "n < 10 \<Longrightarrow> butlast (digits n) = []"
  by (subst digits.simps) simp

lemma digits_inj: "digits m = digits n \<Longrightarrow> m = n"
proof (induction m arbitrary: n rule: digits.induct)
  case (1 m)
  from 1(2) have l: "digit_char (m mod 10) = digit_char (n mod 10)"
    using digits_last [of m] digits_last [of n] by simp
  then have md: "m mod 10 = n mod 10" by (intro digit_char_inj) simp_all
  show ?case
  proof (cases "m < 10")
    case True
    have "n < 10"
    proof (rule ccontr)
      assume "\<not> n < 10"
      then have "butlast (digits n) = digits (n div 10)" by (simp add: digits_butlast)
      with 1(2) digits_single [OF True] digits_nonempty [of "n div 10"] show False by simp
    qed
    with True md show ?thesis by simp
  next
    case False
    have nn: "\<not> n < 10"
    proof
      assume "n < 10"
      from digits_single [OF this] 1(2) digits_butlast [of m] False
        digits_nonempty [of "m div 10"] show False by simp
    qed
    from False nn 1(2) have "digits (m div 10) = digits (n div 10)"
      using digits_butlast [of m] digits_butlast [of n] by simp
    from 1(1) [OF False this] have "m div 10 = n div 10" .
    with md show ?thesis by (metis div_mult_mod_eq)
  qed
qed

lemma digits_hd_not_minus: "hd (digits n) \<noteq> CHR ''-''"
proof (induction n rule: digits.induct)
  case (1 n)
  show ?case
  proof (cases "n < 10")
    case True
    then show ?thesis by (subst digits.simps) (simp add: digit_char_not_minus)
  next
    case False
    with 1 show ?thesis by (subst digits.simps) (simp add: digits_nonempty)
  qed
qed

text \<open>\<^verbatim>\<open>strconv.Itoa\<close> loses nothing: two integers with the same text are equal.\<close>

lemma Itoa_inj: "Itoa i = Itoa j \<Longrightarrow> i = j"
proof -
  assume e: "Itoa i = Itoa j"
  have neg: "\<And>a b. CHR ''-'' # digits a \<noteq> digits b"
  proof
    fix a b assume "CHR ''-'' # digits a = digits b"
    then have "hd (digits b) = CHR ''-''" by (metis list.sel(1))
    with digits_hd_not_minus show False by blast
  qed
  show "i = j"
  proof (cases "i < 0")
    case True
    show ?thesis
    proof (cases "j < 0")
      case j: True
      with True e have "digits (nat (- i)) = digits (nat (- j))" by (simp add: Itoa_def)
      from digits_inj [OF this] True j show ?thesis by simp
    next
      case False
      with True e neg [of "nat (- i)" "nat j"] show ?thesis by (simp add: Itoa_def)
    qed
  next
    case False
    show ?thesis
    proof (cases "j < 0")
      case True
      with False e neg [of "nat (- j)" "nat i"] show ?thesis by (simp add: Itoa_def)
    next
      case j: False
      with False e have "digits (nat i) = digits (nat j)" by (simp add: Itoa_def)
      from digits_inj [OF this] False j show ?thesis by simp
    qed
  qed
qed

section \<open>The example runs\<close>

lemma example_headers:
  "Header_Get (Header (example_request token ctype body g)) ''X-Gitlab-Token'' = token"
  "Header_Get (Header (example_request token ctype body g)) ''Content-Type'' = ctype"
  "Body (example_request token ctype body g) = Inr body"
  "Context (example_request token ctype body g) = example_ctx g"
  by (simp_all add: example_request_def Header_Get_def)

lemma example_decode_simps:
  "example_decode [] = Inl (Err ''EOF'')"
  "example_decode example_mr_body = Inr example_mr_payload"
  "example_decode example_note_body = Inr example_note_payload"
  "example_decode example_push_body = Inr example_push_payload"
  by (simp_all add: example_decode_def example_mr_body_def example_note_body_def
      example_push_body_def)

lemma example_env_simps:
  "json_Decode_Payload (example_env fetch proc) = example_decode"
  "json_Decode_any (example_env fetch proc) b = (if b = [] then Inl (Err ''EOF'') else Inr b)"
  "GetRemoteConfig (example_env fetch proc) c p s = fetch"
  "ParseFile (example_env fetch proc) f =
     (if f = ''label: ['' then Inl (Err ''could not parse'') else Inr f)"
  "ProcessMR (example_env fetch proc) c cfg a = proc"
  by (simp_all add: example_env_def)

lemma example_bodies_nonempty:
  "example_mr_body \<noteq> []" "example_note_body \<noteq> []" "example_push_body \<noteq> []"
  by (simp_all add: example_mr_body_def example_note_body_def example_push_body_def)

lemma example_rejects_empty: "Decode_rejects_empty (example_env fetch proc)"
  by (simp add: Decode_rejects_empty_def example_env_simps example_decode_simps)

lemma example_run_mr:
  "webhook_handler (example_env fetch proc) ''s3cret''
     (example_request ''s3cret'' ''application/json'' example_mr_body g) =
   [ReadAll, Decode_Payload example_mr_body, LogInfo (example_mr_ctx g) ''GET /gitlab webhook'',
    Decode_any example_mr_body] @
   resolve_and_process (example_env fetch proc) (example_mr_ctx g) example_mr_body"
proof -
  have et: "EventType example_mr_payload = ''merge_request''"
    by (simp add: example_mr_payload_def)
  show ?thesis
    apply (simp add: handler_body [where b = example_mr_body] example_headers example_env_simps
        example_decode_simps example_bodies_nonempty)
    apply (simp add: route_merge_request [OF et] Let_def example_env_simps example_bodies_nonempty)
    apply (simp add: example_mr_ctx_def example_mr_payload_def example_ctx_def)
    done
qed

lemma example_ctx_simps:
  "ConfigFilePath (example_mr_ctx g) = ''.scm-engine.yml''"
  "CommitSHA (example_mr_ctx g) = ''c0ffee''"
  "MergeRequestID (example_mr_ctx g) = Itoa 7"
  "GlobalConfigFilePath (example_mr_ctx g) = g"
  "GlobalConfig (example_mr_ctx g) = (if g = [] then None else Some ''global rules'')"
  by (simp_all add: example_mr_ctx_def example_ctx_def)

lemma Itoa_examples: "Itoa 7 = ''7''" "Itoa 12 = ''12''" "Itoa (- 42) = ''-42''" "Itoa 0 = ''0''"
  by code_simp+

section \<open>The secret check\<close>

text \<open>C5: when the configured secret is non-empty and the \<^verbatim>\<open>X-Gitlab-Token\<close> header differs
  from it, the run is the 403 response and nothing else: no body read, no decode, no call
  of the client or of anything downstream. A missing header is such a case. When the
  configured secret is empty, no run ever writes 403.\<close>

theorem secret_mismatch_forbidden:
  "(webhookSecret \<noteq> [] \<and> Header_Get (Header r) ''X-Gitlab-Token'' \<noteq> webhookSecret \<longrightarrow>
      webhook_handler env webhookSecret r =
        [WriteHeader StatusForbidden, Write ''Missing or invalid X-Gitlab-Token header''] \<and>
      response_status (webhook_handler env webhookSecret r) = Some StatusForbidden \<and>
      (\<forall>e \<in> set (webhook_handler env webhookSecret r). \<not> is_call e)) \<and>
   (webhookSecret \<noteq> [] \<and> Header r ''X-Gitlab-Token'' = None \<longrightarrow>
      response_status (webhook_handler env webhookSecret r) = Some StatusForbidden) \<and>
   (webhookSecret = [] \<longrightarrow>
      WriteHeader StatusForbidden \<notin> set (webhook_handler env webhookSecret r) \<and>
      response_status (webhook_handler env webhookSecret r) \<noteq> Some StatusForbidden)"
proof (intro conjI impI)
  assume a: "webhookSecret \<noteq> [] \<and> Header_Get (Header r) ''X-Gitlab-Token'' \<noteq> webhookSecret"
  then have h: "webhook_handler env webhookSecret r =
        [WriteHeader StatusForbidden, Write ''Missing or invalid X-Gitlab-Token header'']"
    by (simp add: handler_forbidden)
  then show "webhook_handler env webhookSecret r =
        [WriteHeader StatusForbidden, Write ''Missing or invalid X-Gitlab-Token header'']" .
  from h show "response_status (webhook_handler env webhookSecret r) = Some StatusForbidden"
    by simp
  from h show "\<forall>e \<in> set (webhook_handler env webhookSecret r). \<not> is_call e" by simp
next
  assume a: "webhookSecret \<noteq> [] \<and> Header r ''X-Gitlab-Token'' = None"
  then have "Header_Get (Header r) ''X-Gitlab-Token'' \<noteq> webhookSecret"
    by (auto simp: Header_Get_def)
  with a show "response_status (webhook_handler env webhookSecret r) = Some StatusForbidden"
    by (simp add: handler_forbidden)
next
  assume e: "webhookSecret = []"
  then show n: "WriteHeader StatusForbidden \<notin> set (webhook_handler env webhookSecret r)"
    using header_codes_open [of StatusForbidden env r] by auto
  show "response_status (webhook_handler env webhookSecret r) \<noteq> Some StatusForbidden"
  proof
    assume "response_status (webhook_handler env webhookSecret r) = Some StatusForbidden"
    from response_status_mem [OF this] n show False by (simp add: status_defs)
  qed
qed

text \<open>Three requests: a wrong token, no token header at all, and a token sent to a server
  with no secret configured.\<close>

theorem secret_mismatch_forbidden_witness:
  "(''s3cret'' \<noteq> [] \<and>
    Header_Get (Header (example_request ''guess'' ''application/json'' example_mr_body []))
      ''X-Gitlab-Token'' \<noteq> ''s3cret'' \<and>
    webhook_handler (example_env (Inr None) None) ''s3cret''
      (example_request ''guess'' ''application/json'' example_mr_body []) =
      [WriteHeader StatusForbidden, Write ''Missing or invalid X-Gitlab-Token header'']) \<and>
   (''s3cret'' \<noteq> [] \<and>
    Header \<lparr>Header = Map.empty, Body = Inr example_mr_body, Context = example_ctx []\<rparr>
      ''X-Gitlab-Token'' = None \<and>
    response_status (webhook_handler (example_env (Inr None) None) ''s3cret''
      \<lparr>Header = Map.empty, Body = Inr example_mr_body, Context = example_ctx []\<rparr>) =
      Some StatusForbidden) \<and>
   ([] = ([] :: string) \<and>
    response_status (webhook_handler (example_env (Inr None) None) []
      (example_request ''guess'' ''application/json'' example_mr_body [])) \<noteq>
      Some StatusForbidden)"
proof -
  have h1: "''s3cret'' \<noteq> [] \<and>
    Header_Get (Header (example_request ''guess'' ''application/json'' example_mr_body []))
      ''X-Gitlab-Token'' \<noteq> ''s3cret''"
    by (simp add: example_headers)
  have h2: "''s3cret'' \<noteq> [] \<and>
    Header \<lparr>Header = Map.empty, Body = Inr example_mr_body, Context = example_ctx []\<rparr>
      ''X-Gitlab-Token'' = None"
    by simp
  from secret_mismatch_forbidden [of "''s3cret''"
      "example_request ''guess'' ''application/json'' example_mr_body []"
      "example_env (Inr None) None"] h1
  have c1: "webhook_handler (example_env (Inr None) None) ''s3cret''
      (example_request ''guess'' ''application/json'' example_mr_body []) =
      [WriteHeader StatusForbidden, Write ''Missing or invalid X-Gitlab-Token header'']"
    by blast
  from secret_mismatch_forbidden [of "''s3cret''"
      "\<lparr>Header = Map.empty, Body = Inr example_mr_body, Context = example_ctx []\<rparr>"
      "example_env (Inr None) None"] h2
  have c2: "response_status (webhook_handler (example_env (Inr None) None) ''s3cret''
      \<lparr>Header = Map.empty, Body = Inr example_mr_body, Context = example_ctx []\<rparr>) =
      Some StatusForbidden"
    by blast
  from secret_mismatch_forbidden [of "[]"
      "example_request ''guess'' ''application/json'' example_mr_body []"
      "example_env (Inr None) None"]
  have c3: "response_status (webhook_handler (example_env (Inr None) None) []
      (example_request ''guess'' ''application/json'' example_mr_body [])) \<noteq>
      Some StatusForbidden"
    by blast
  from h1 h2 c1 c2 c3 show ?thesis by blast
qed

section \<open>The content-type check\<close>

text \<open>C7, as stated, fails: the secret check comes first, so a request with a wrong
  token and a content type other than \<^verbatim>\<open>application/json\<close> is answered 403, not 406.\<close>

theorem content_type_counterexample:
  "Header_Get (Header (example_request ''guess'' ''text/plain'' example_mr_body []))
     ''Content-Type'' \<noteq> ''application/json'' \<and>
   response_status (webhook_handler (example_env (Inr None) None) ''s3cret''
     (example_request ''guess'' ''text/plain'' example_mr_body [])) = Some StatusForbidden \<and>
   response_status (webhook_handler (example_env (Inr None) None) ''s3cret''
     (example_request ''guess'' ''text/plain'' example_mr_body [])) \<noteq> Some StatusNotAcceptable"
  by (simp add: handler_forbidden example_headers status_defs)

text \<open>C7, amended: for all requests that pass the secret check and whose \<^verbatim>\<open>Content-Type\<close>
  header is other than exactly \<^verbatim>\<open>application/json\<close>, the response is 406 and the body is
  never read.\<close>

theorem content_type_not_acceptable:
  assumes "webhookSecret = [] \<or> Header_Get (Header r) ''X-Gitlab-Token'' = webhookSecret"
    and "Header_Get (Header r) ''Content-Type'' \<noteq> ''application/json''"
  shows "webhook_handler env webhookSecret r =
           [WriteHeader StatusNotAcceptable,
            Write ''The request is not using Content-Type: application/json''] \<and>
         response_status (webhook_handler env webhookSecret r) = Some StatusNotAcceptable \<and>
         ReadAll \<notin> set (webhook_handler env webhookSecret r)"
  by (simp add: handler_not_acceptable [OF assms])

theorem content_type_not_acceptable_witness:
  "(''s3cret'' = [] \<or>
    Header_Get (Header (example_request ''s3cret'' ''application/json; charset=utf-8''
      example_mr_body [])) ''X-Gitlab-Token'' = ''s3cret'') \<and>
   Header_Get (Header (example_request ''s3cret'' ''application/json; charset=utf-8''
      example_mr_body [])) ''Content-Type'' \<noteq> ''application/json'' \<and>
   response_status (webhook_handler (example_env (Inr None) None) ''s3cret''
     (example_request ''s3cret'' ''application/json; charset=utf-8'' example_mr_body [])) =
     Some StatusNotAcceptable \<and>
   ReadAll \<notin> set (webhook_handler (example_env (Inr None) None) ''s3cret''
     (example_request ''s3cret'' ''application/json; charset=utf-8'' example_mr_body []))"
proof -
  have h1: "''s3cret'' = [] \<or>
    Header_Get (Header (example_request ''s3cret'' ''application/json; charset=utf-8''
      example_mr_body [])) ''X-Gitlab-Token'' = ''s3cret''"
    by (simp add: example_headers)
  have h2: "Header_Get (Header (example_request ''s3cret'' ''application/json; charset=utf-8''
      example_mr_body [])) ''Content-Type'' \<noteq> ''application/json''"
    by (simp add: example_headers)
  from content_type_not_acceptable [OF h1 h2, of "example_env (Inr None) None"] h1 h2
  show ?thesis by blast
qed

section \<open>The empty body\<close>

text \<open>C1: for a request that passes the secret check and the content-type check and whose
  body is empty, the handler writes the 400 response of the empty-body check and goes on:
  the next event of the run is the typed JSON decode of the empty body. The status the
  client sees is 400.\<close>

theorem empty_body_continues:
  assumes "webhookSecret = [] \<or> Header_Get (Header r) ''X-Gitlab-Token'' = webhookSecret"
    and "Header_Get (Header r) ''Content-Type'' = ''application/json''"
    and "Body r = Inr []"
  shows "(\<exists>rest. webhook_handler env webhookSecret r =
            [ReadAll, WriteHeader StatusBadRequest,
             Write ''The POST body is empty; expected a JSON payload'', Decode_Payload []] @ rest)
         \<and> response_status (webhook_handler env webhookSecret r) = Some StatusBadRequest"
  by (simp add: handler_body [OF assms])

theorem empty_body_continues_witness:
  "(''s3cret'' = [] \<or>
    Header_Get (Header (example_request ''s3cret'' ''application/json'' [] []))
      ''X-Gitlab-Token'' = ''s3cret'') \<and>
   Header_Get (Header (example_request ''s3cret'' ''application/json'' [] []))
      ''Content-Type'' = ''application/json'' \<and>
   Body (example_request ''s3cret'' ''application/json'' [] []) = Inr [] \<and>
   (\<exists>rest. webhook_handler (example_env (Inr None) None) ''s3cret''
        (example_request ''s3cret'' ''application/json'' [] []) =
      [ReadAll, WriteHeader StatusBadRequest,
       Write ''The POST body is empty; expected a JSON payload'', Decode_Payload []] @ rest) \<and>
   response_status (webhook_handler (example_env (Inr None) None) ''s3cret''
        (example_request ''s3cret'' ''application/json'' [] [])) = Some StatusBadRequest"
proof -
  have h1: "''s3cret'' = [] \<or>
    Header_Get (Header (example_request ''s3cret'' ''application/json'' [] []))
      ''X-Gitlab-Token'' = ''s3cret''"
    by (simp add: example_headers)
  have h2: "Header_Get (Header (example_request ''s3cret'' ''application/json'' [] []))
      ''Content-Type'' = ''application/json''"
    by (simp add: example_headers)
  have h3: "Body (example_request ''s3cret'' ''application/json'' [] []) = Inr []"
    by (simp add: example_headers)
  from empty_body_continues [OF h1 h2 h3, of "example_env (Inr None) None"] h1 h2 h3
  show ?thesis by blast
qed



section \<open>Event dispatch\<close>

text \<open>C6: for a body that decodes into a payload whose event type is neither
  \<^verbatim>\<open>merge_request\<close> nor \<^verbatim>\<open>note\<close>, the response is 500 with the body
  \<^verbatim>\<open>unknown event type: \<close> followed by the event type, and the run ends there: no untyped
  decode and no call of the client, the configuration loader or \<^verbatim>\<open>ProcessMR\<close>.\<close>

theorem unknown_event_type_rejected:
  assumes "webhookSecret = [] \<or> Header_Get (Header r) ''X-Gitlab-Token'' = webhookSecret"
    and "Header_Get (Header r) ''Content-Type'' = ''application/json''"
    and "Body r = Inr b"
    and "json_Decode_Payload env b = Inr payload"
    and "EventType payload \<noteq> ''merge_request''" and "EventType payload \<noteq> ''note''"
    and "Decode_rejects_empty env"
  shows "webhook_handler env webhookSecret r =
           [ReadAll, Decode_Payload b, WriteHeader StatusInternalServerError,
            Write (''unknown event type: '' @ EventType payload)] \<and>
         response_status (webhook_handler env webhookSecret r) = Some StatusInternalServerError \<and>
         response_body (webhook_handler env webhookSecret r) =
           ''unknown event type: '' @ EventType payload \<and>
         (\<forall>e \<in> set (webhook_handler env webhookSecret r). e \<noteq> Decode_any b \<and> \<not> is_call e)"
proof -
  from assms(4,7) have "b \<noteq> []" by (auto simp: Decode_rejects_empty_def)
  then have "webhook_handler env webhookSecret r =
           [ReadAll, Decode_Payload b, WriteHeader StatusInternalServerError,
            Write (''unknown event type: '' @ EventType payload)]"
    using handler_body [OF assms(1-3), of env] assms(4) route_unknown [OF assms(5,6)] by simp
  then show ?thesis by simp
qed

theorem unknown_event_type_rejected_witness:
  "(''s3cret'' = [] \<or>
    Header_Get (Header (example_request ''s3cret'' ''application/json'' example_push_body []))
      ''X-Gitlab-Token'' = ''s3cret'') \<and>
   Header_Get (Header (example_request ''s3cret'' ''application/json'' example_push_body []))
      ''Content-Type'' = ''application/json'' \<and>
   Body (example_request ''s3cret'' ''application/json'' example_push_body []) =
      Inr example_push_body \<and>
   json_Decode_Payload (example_env (Inr None) None) example_push_body =
      Inr example_push_payload \<and>
   EventType example_push_payload \<noteq> ''merge_request'' \<and>
   EventType example_push_payload \<noteq> ''note'' \<and>
   Decode_rejects_empty (example_env (Inr None) None) \<and>
   response_status (webhook_handler (example_env (Inr None) None) ''s3cret''
      (example_request ''s3cret'' ''application/json'' example_push_body [])) =
     Some StatusInternalServerError \<and>
   response_body (webhook_handler (example_env (Inr None) None) ''s3cret''
      (example_request ''s3cret'' ''application/json'' example_push_body [])) =
     ''unknown event type: push''"
proof -
  have h1: "''s3cret'' = [] \<or>
    Header_Get (Header (example_request ''s3cret'' ''application/json'' example_push_body []))
      ''X-Gitlab-Token'' = ''s3cret''"
    by (simp add: example_headers)
  have h2: "Header_Get (Header (example_request ''s3cret'' ''application/json''
      example_push_body [])) ''Content-Type'' = ''application/json''"
    by (simp add: example_headers)
  have h3: "Body (example_request ''s3cret'' ''application/json'' example_push_body []) =
      Inr example_push_body"
    by (simp add: example_headers)
  have h4: "json_Decode_Payload (example_env (Inr None) None) example_push_body =
      Inr example_push_payload"
    by (simp add: example_env_simps example_decode_simps)
  have h5: "EventType example_push_payload \<noteq> ''merge_request''"
    by (simp add: example_push_payload_def)
  have h6: "EventType example_push_payload \<noteq> ''note''"
    by (simp add: example_push_payload_def)
  have h7: "Decode_rejects_empty (example_env (Inr None) None)"
    by (rule example_rejects_empty)
  have et: "EventType example_push_payload = ''push''"
    by (simp add: example_push_payload_def)
  from unknown_event_type_rejected [OF h1 h2 h3 h4 h5 h6 h7] h1 h2 h3 h4 h5 h6 h7 et
  show ?thesis by simp
qed

text \<open>C4: for a body that decodes into a payload with event type \<^verbatim>\<open>merge_request\<close>, every
  context the run hands on (to the logger at line 105 and to each call after it; there is
  at least one) carries as merge request ID the decimal text of the IID of
  \<^verbatim>\<open>object_attributes\<close> and as commit SHA the ID of its last commit; for event type
  \<^verbatim>\<open>note\<close>, the same with the fields of \<^verbatim>\<open>merge_request\<close>.\<close>

theorem routed_identifiers:
  assumes "webhookSecret = [] \<or> Header_Get (Header r) ''X-Gitlab-Token'' = webhookSecret"
    and "Header_Get (Header r) ''Content-Type'' = ''application/json''"
    and "Body r = Inr b"
    and "json_Decode_Payload env b = Inr payload"
  shows "(EventType payload = ''merge_request'' \<longrightarrow>
            contexts (webhook_handler env webhookSecret r) \<noteq> [] \<and>
            (\<forall>c \<in> set (contexts (webhook_handler env webhookSecret r)).
               MergeRequestID c = Itoa (IID (ObjectAttributes payload)) \<and>
               CommitSHA c = ID (LastCommit (ObjectAttributes payload)))) \<and>
         (EventType payload = ''note'' \<longrightarrow>
            contexts (webhook_handler env webhookSecret r) \<noteq> [] \<and>
            (\<forall>c \<in> set (contexts (webhook_handler env webhookSecret r)).
               MergeRequestID c = Itoa (IID (MergeRequest payload)) \<and>
               CommitSHA c = ID (LastCommit (MergeRequest payload))))"
proof (intro conjI impI)
  note hb = handler_body [OF assms(1-3), of env]
  {
    assume mr: "EventType payload = ''merge_request''"
    let ?c = "(Context r)\<lparr>ProjectID := PathWithNamespace (Project payload),
                     CommitSHA := ID (LastCommit (ObjectAttributes payload)),
                     MergeRequestID := Itoa (IID (ObjectAttributes payload)),
                     LogAttrs := LogAttrs (Context r) @ [(''event_type'', ''merge_request'')]\<rparr>"
    from contexts_route_tail [where env = env and b = b and c = "?c"]
    have "set (contexts (webhook_handler env webhookSecret r)) = {?c}"
      unfolding hb assms(4) by (auto simp: route_merge_request [OF mr] Let_def contexts_append)
    then show "contexts (webhook_handler env webhookSecret r) \<noteq> []"
      and "\<forall>c \<in> set (contexts (webhook_handler env webhookSecret r)).
               MergeRequestID c = Itoa (IID (ObjectAttributes payload)) \<and>
               CommitSHA c = ID (LastCommit (ObjectAttributes payload))"
      by auto
  }
  {
    assume nt: "EventType payload = ''note''"
    let ?c = "(Context r)\<lparr>ProjectID := PathWithNamespace (Project payload),
                     CommitSHA := ID (LastCommit (MergeRequest payload)),
                     MergeRequestID := Itoa (IID (MergeRequest payload)),
                     LogAttrs := LogAttrs (Context r) @ [(''event_type'', ''note'')]\<rparr>"
    from contexts_route_tail [where env = env and b = b and c = "?c"]
    have "set (contexts (webhook_handler env webhookSecret r)) = {?c}"
      unfolding hb assms(4) by (auto simp: route_note [OF nt] Let_def contexts_append)
    then show "contexts (webhook_handler env webhookSecret r) \<noteq> []"
      and "\<forall>c \<in> set (contexts (webhook_handler env webhookSecret r)).
               MergeRequestID c = Itoa (IID (MergeRequest payload)) \<and>
               CommitSHA c = ID (LastCommit (MergeRequest payload))"
      by auto
  }
qed

text \<open>A merge-request event with IID 7 and a note event on merge request 12.\<close>

theorem routed_identifiers_witness:
  "(EventType example_mr_payload = ''merge_request'' \<and>
    contexts (webhook_handler (example_env (Inr None) None) ''s3cret''
      (example_request ''s3cret'' ''application/json'' example_mr_body [])) \<noteq> [] \<and>
    list_all (\<lambda>c. MergeRequestID c = ''7'' \<and> CommitSHA c = ''c0ffee'')
      (contexts (webhook_handler (example_env (Inr None) None) ''s3cret''
                (example_request ''s3cret'' ''application/json'' example_mr_body [])))) \<and>
   (EventType example_note_payload = ''note'' \<and>
    contexts (webhook_handler (example_env (Inr None) None) ''s3cret''
      (example_request ''s3cret'' ''application/json'' example_note_body [])) \<noteq> [] \<and>
    list_all (\<lambda>c. MergeRequestID c = ''12'' \<and> CommitSHA c = ''decaf'')
      (contexts (webhook_handler (example_env (Inr None) None) ''s3cret''
                (example_request ''s3cret'' ''application/json'' example_note_body []))))"
proof -
  have m1: "''s3cret'' = [] \<or>
    Header_Get (Header (example_request ''s3cret'' ''application/json'' example_mr_body []))
      ''X-Gitlab-Token'' = ''s3cret''"
    and m2: "Header_Get (Header (example_request ''s3cret'' ''application/json''
      example_mr_body [])) ''Content-Type'' = ''application/json''"
    and m3: "Body (example_request ''s3cret'' ''application/json'' example_mr_body []) =
      Inr example_mr_body"
    and m4: "json_Decode_Payload (example_env (Inr None) None) example_mr_body =
      Inr example_mr_payload"
    by (simp_all add: example_headers example_env_simps example_decode_simps)
  have n1: "''s3cret'' = [] \<or>
    Header_Get (Header (example_request ''s3cret'' ''application/json'' example_note_body []))
      ''X-Gitlab-Token'' = ''s3cret''"
    and n2: "Header_Get (Header (example_request ''s3cret'' ''application/json''
      example_note_body [])) ''Content-Type'' = ''application/json''"
    and n3: "Body (example_request ''s3cret'' ''application/json'' example_note_body []) =
      Inr example_note_body"
    and n4: "json_Decode_Payload (example_env (Inr None) None) example_note_body =
      Inr example_note_payload"
    by (simp_all add: example_headers example_env_simps example_decode_simps)
  have e1: "EventType example_mr_payload = ''merge_request''"
    and v1: "Itoa (IID (ObjectAttributes example_mr_payload)) = ''7''"
    and s1: "ID (LastCommit (ObjectAttributes example_mr_payload)) = ''c0ffee''"
    by (simp_all add: example_mr_payload_def Itoa_examples)
  have e2: "EventType example_note_payload = ''note''"
    and v2: "Itoa (IID (MergeRequest example_note_payload)) = ''12''"
    and s2: "ID (LastCommit (MergeRequest example_note_payload)) = ''decaf''"
    by (simp_all add: example_note_payload_def Itoa_examples)
  from routed_identifiers [OF m1 m2 m3 m4] e1 v1 s1
  have c1: "contexts (webhook_handler (example_env (Inr None) None) ''s3cret''
      (example_request ''s3cret'' ''application/json'' example_mr_body [])) \<noteq> [] \<and>
    list_all (\<lambda>c. MergeRequestID c = ''7'' \<and> CommitSHA c = ''c0ffee'')
      (contexts (webhook_handler (example_env (Inr None) None) ''s3cret''
                (example_request ''s3cret'' ''application/json'' example_mr_body [])))"
    by (simp add: list_all_iff)
  from routed_identifiers [OF n1 n2 n3 n4] e2 v2 s2
  have c2: "contexts (webhook_handler (example_env (Inr None) None) ''s3cret''
      (example_request ''s3cret'' ''application/json'' example_note_body [])) \<noteq> [] \<and>
    list_all (\<lambda>c. MergeRequestID c = ''12'' \<and> CommitSHA c = ''decaf'')
      (contexts (webhook_handler (example_env (Inr None) None) ''s3cret''
                (example_request ''s3cret'' ''application/json'' example_note_body [])))"
    by (simp add: list_all_iff)
  from e1 e2 c1 c2 show ?thesis by blast
qed

section \<open>Configuration resolution and processing\<close>






text \<open>C8: for a run that reaches \<^verbatim>\<open>ProcessMR\<close> (the decoder rejecting the empty input, as
  \<^verbatim>\<open>encoding/json\<close> does), the response status is 200; the body is the error text when
  \<^verbatim>\<open>ProcessMR\<close> returns an error and \<^verbatim>\<open>OK\<close> when it returns none.\<close>

theorem processing_always_200:
  assumes "Call_ProcessMR c g a \<in> set (webhook_handler env webhookSecret r)"
    and "Decode_rejects_empty env"
  shows "response_status (webhook_handler env webhookSecret r) = Some StatusOK \<and>
         response_body (webhook_handler env webhookSecret r) =
           (case ProcessMR env c g a of Some err \<Rightarrow> Error err | None \<Rightarrow> ''OK'')"
proof -
  have call: "is_call (Call_ProcessMR c g a)" by simp
  from handler_reaches_resolution [OF assms(1) call]
  obtain b payload c' a' where dec: "json_Decode_Payload env b = Inr payload"
    and mem: "Call_ProcessMR c g a \<in> set (resolve_and_process env c' a')"
    and tr: "webhook_handler env webhookSecret r =
             ReadAll #
             (if b = [] then [WriteHeader StatusBadRequest,
                              Write ''The POST body is empty; expected a JSON payload'']
              else []) @
             [Decode_Payload b, LogInfo c' ''GET /gitlab webhook'', Decode_any b] @
             resolve_and_process env c' a'"
    by auto
  from dec assms(2) have ne: "b \<noteq> []" by (auto simp: Decode_rejects_empty_def)
  from mem have "response_status (resolve_and_process env c' a') = Some StatusOK \<and>
         response_body (resolve_and_process env c' a') =
           (case ProcessMR env c g a of Some err \<Rightarrow> Error err | None \<Rightarrow> ''OK'')"
    by (auto simp: resolve_and_process_cases split: sum.splits option.splits if_splits)
  then show ?thesis unfolding tr reaches_form_status [OF ne] .
qed

lemma example_mr_reaches_processing:
  "Call_ProcessMR (example_mr_ctx []) (Some ''label: []'') example_mr_body
     \<in> set (webhook_handler (example_env (Inr (Some ''label: []'')) proc) ''s3cret''
              (example_request ''s3cret'' ''application/json'' example_mr_body []))"
  by (simp add: example_run_mr resolve_and_process_cases example_ctx_simps example_env_simps)

text \<open>The merge-request example with a configuration that parses, once with a failing
  processing stage and once with a successful one.\<close>

theorem processing_always_200_witness:
  "(Call_ProcessMR (example_mr_ctx []) (Some ''label: []'') example_mr_body
      \<in> set (webhook_handler (example_env (Inr (Some ''label: []'')) (Some (Err ''boom'')))
               ''s3cret'' (example_request ''s3cret'' ''application/json'' example_mr_body [])) \<and>
    Decode_rejects_empty (example_env (Inr (Some ''label: []'')) (Some (Err ''boom''))) \<and>
    response_status (webhook_handler (example_env (Inr (Some ''label: []'')) (Some (Err ''boom'')))
      ''s3cret'' (example_request ''s3cret'' ''application/json'' example_mr_body [])) =
      Some StatusOK \<and>
    response_body (webhook_handler (example_env (Inr (Some ''label: []'')) (Some (Err ''boom'')))
      ''s3cret'' (example_request ''s3cret'' ''application/json'' example_mr_body [])) = ''boom'') \<and>
   (Call_ProcessMR (example_mr_ctx []) (Some ''label: []'') example_mr_body
      \<in> set (webhook_handler (example_env (Inr (Some ''label: []'')) None)
               ''s3cret'' (example_request ''s3cret'' ''application/json'' example_mr_body [])) \<and>
    response_status (webhook_handler (example_env (Inr (Some ''label: []'')) None)
      ''s3cret'' (example_request ''s3cret'' ''application/json'' example_mr_body [])) =
      Some StatusOK \<and>
    response_body (webhook_handler (example_env (Inr (Some ''label: []'')) None)
      ''s3cret'' (example_request ''s3cret'' ''application/json'' example_mr_body [])) = ''OK'')"
proof -
  let ?bad = "example_env (Inr (Some ''label: []'')) (Some (Err ''boom''))
                :: (string, string, string) env"
  let ?good = "example_env (Inr (Some ''label: []'')) None :: (string, string, string) env"
  have a1: "Call_ProcessMR (example_mr_ctx []) (Some ''label: []'') example_mr_body
      \<in> set (webhook_handler ?bad ''s3cret''
               (example_request ''s3cret'' ''application/json'' example_mr_body []))"
    by (rule example_mr_reaches_processing)
  have b1: "Call_ProcessMR (example_mr_ctx []) (Some ''label: []'') example_mr_body
      \<in> set (webhook_handler ?good ''s3cret''
               (example_request ''s3cret'' ''application/json'' example_mr_body []))"
    by (rule example_mr_reaches_processing)
  have a2: "Decode_rejects_empty ?bad" and b2: "Decode_rejects_empty ?good"
    by (rule example_rejects_empty)+
  from processing_always_200 [OF a1 a2]
  have c1: "response_status (webhook_handler ?bad ''s3cret''
        (example_request ''s3cret'' ''application/json'' example_mr_body [])) = Some StatusOK \<and>
      response_body (webhook_handler ?bad ''s3cret''
        (example_request ''s3cret'' ''application/json'' example_mr_body [])) = ''boom''"
    by (simp add: example_env_simps)
  from processing_always_200 [OF b1 b2]
  have c2: "response_status (webhook_handler ?good ''s3cret''
        (example_request ''s3cret'' ''application/json'' example_mr_body [])) = Some StatusOK \<and>
      response_body (webhook_handler ?good ''s3cret''
        (example_request ''s3cret'' ''application/json'' example_mr_body [])) = ''OK''"
    by (simp add: example_env_simps)
  from a1 a2 b1 c1 c2 show ?thesis by blast
qed

end
